theory Spec2Isabelle
  imports Complex_Main
begin

section \<open>Python values, \<open>str\<close> and truthiness\<close>

text \<open>
  The values that reach \<open>BaseAPI.py\<close> as parameter values, dictionary values and
  positional arguments: \<open>None\<close>, booleans, unbounded integers, strings and lists.
  A \<open>string\<close> is read as a sequence of code points below 256. Floats are not
  represented (their \<open>str\<close> is a floating-point rendering).
\<close>

datatype pyval = PNone | PBool bool | PInt int | PStr string | PList "pyval list"

text \<open>Python's \<open>bool(value)\<close>, which an \<open>if value:\<close> evaluates.\<close>

fun truthy :: "pyval \<Rightarrow> bool" where
  "truthy PNone = False"
| "truthy (PBool b) = b"
| "truthy (PInt i) = (i \<noteq> 0)"
| "truthy (PStr s) = (s \<noteq> [])"
| "truthy (PList xs) = (xs \<noteq> [])"

definition digit_char :: "nat \<Rightarrow> char" where
  "digit_char n = ''0123456789'' ! n"

fun digits :: "nat \<Rightarrow> string" where
  "digits n = (if n < 10 then [digit_char n] else digits (n div 10) @ [digit_char (n mod 10)])"

declare digits.simps [simp del]

text \<open>\<open>str\<close> of an integer: decimal, with a minus sign when negative.\<close>

definition str_int :: "int \<Rightarrow> string" where
  "str_int i = (if i < 0 then CHR ''-'' # digits (nat (- i)) else digits (nat i))"

definition hex_digit :: "nat \<Rightarrow> char" where
  "hex_digit n = ''0123456789abcdef'' ! n"

text \<open>
  \<open>repr\<close> of a string, as \<open>str\<close> of a list renders its string elements: single quotes
  unless the string holds a single quote and no double quote; the quote and the
  backslash escaped; tab, newline and carriage return by letter; every other
  non-printable code point as \<open>\xhh\<close>.
\<close>

definition printable :: "char \<Rightarrow> bool" where
  "printable c = (let n = (of_char c :: nat) in
     (32 \<le> n \<and> n < 127) \<or> (161 \<le> n \<and> n \<noteq> 173))"

definition repr_char :: "char \<Rightarrow> char \<Rightarrow> string" where
  "repr_char q c =
     (if c = q \<or> c = CHR 0x5C then [CHR 0x5C, c]
      else if c = CHR 0x09 then [CHR 0x5C, CHR ''t'']
      else if c = CHR 0x0A then [CHR 0x5C, CHR ''n'']
      else if c = CHR 0x0D then [CHR 0x5C, CHR ''r'']
      else if printable c then [c]
      else [CHR 0x5C, CHR ''x'', hex_digit (of_char c div 16), hex_digit (of_char c mod 16)])"

definition repr_str :: "string \<Rightarrow> string" where
  "repr_str s =
     (let q = (if CHR 0x27 \<in> set s \<and> CHR 0x22 \<notin> set s then CHR 0x22 else CHR 0x27)
      in q # concat (map (repr_char q) s) @ [q])"

fun join :: "string \<Rightarrow> string list \<Rightarrow> string" where
  "join sep [] = []"
| "join sep [x] = x"
| "join sep (x # y # ys) = x @ sep @ join sep (y # ys)"

fun py_repr :: "pyval \<Rightarrow> string" where
  "py_repr PNone = ''None''"
| "py_repr (PBool b) = (if b then ''True'' else ''False'')"
| "py_repr (PInt i) = str_int i"
| "py_repr (PStr s) = repr_str s"
| "py_repr (PList xs) = ''['' @ join '', '' (map py_repr xs) @ '']''"

text \<open>Python's \<open>str(value)\<close>: a string is itself, everything else is its \<open>repr\<close>.\<close>

fun py_str :: "pyval \<Rightarrow> string" where
  "py_str (PStr s) = s"
| "py_str v = py_repr v"

section \<open>Decoded JSON\<close>

text \<open>
  What \<open>json.loads\<close> returns. The decoder belongs to the standard library, not to
  this repository, so the operations below take it as a parameter: \<open>None\<close> is the
  decode failure it raises. A \<open>JObject\<close> lists the entries of a dictionary.
\<close>

datatype json = JNull | JBool bool | JInt int | JFloat real | JString string
  | JArray "json list" | JObject "(string \<times> json) list"

section \<open>Exceptions\<close>

datatype error =
    RateLimitError string
  | APIError json
  | ValueError string
  | AssertionError string
  | JSONDecodeError
  | KeyError string
  | TypeError
  | RequestException string

text \<open>\<open>RateLimitError.__init__\<close>: the \<open>value\<close> attribute of the exception.\<close>

definition RateLimitError_init :: "int \<Rightarrow> error" where
  "RateLimitError_init v = RateLimitError (str_int v @ '' Error/Rate Limit Encountered'')"

text \<open>\<open>APIError.__init__\<close> stores the value as it is.\<close>

definition APIError_init :: "json \<Rightarrow> error" where
  "APIError_init v = APIError v"

text \<open>
  \<open>decoded[name]\<close> on a decoded JSON value: a dictionary without the key raises
  \<open>KeyError\<close>, and subscripting anything else with a string raises \<open>TypeError\<close>.
\<close>

fun subscript :: "json \<Rightarrow> string \<Rightarrow> error + json" where
  "subscript (JObject kvs) k = (case map_of kvs k of None \<Rightarrow> Inl (KeyError k) | Some v \<Rightarrow> Inr v)"
| "subscript j k = Inl TypeError"

section \<open>The client and its collaborators\<close>

text \<open>
  Dictionaries are objects that the code shares and mutates, so they live in a store:
  a dictionary value is its entries in iteration order, with string keys, and a
  reference is an address.
\<close>

type_synonym dict = "(string \<times> pyval) list"
type_synonym addr = nat
type_synonym heap = "addr \<Rightarrow> dict"

text \<open>
  \<open>_cache_life\<close>: a number of seconds (an integer or a finite float, both real
  numbers), or \<open>float('inf')\<close>, the default.
\<close>

datatype cache_life = Seconds real | Forever

record BaseAPI =
  api :: string
  rate_limit_status_code :: int
  auth_dict :: addr
  cache_life :: cache_life

text \<open>The fields of \<open>requests.Response\<close> that the code reads (\<open>rtext\<close> is \<open>text\<close>).\<close>

record response =
  status_code :: int
  rtext :: string
  url :: string

text \<open>
  The library calls: \<open>json.loads\<close> and the four \<open>requests\<close> verbs, each of which
  returns a response or raises.
\<close>

record library =
  json_loads :: "string \<Rightarrow> json option"
  requests_get :: "string \<Rightarrow> error + response"
  requests_put :: "string \<Rightarrow> dict \<Rightarrow> error + response"
  requests_post :: "string \<Rightarrow> dict \<Rightarrow> error + response"
  requests_delete :: "string \<Rightarrow> dict \<Rightarrow> error + response"

section \<open>Status classification\<close>

text \<open>
  \<open>_check_status\<close>, branch by branch in the order of the source. The \<open>assert\<close> is
  modelled as it runs when assertions are enabled.
\<close>

definition check_status :: "library \<Rightarrow> BaseAPI \<Rightarrow> response \<Rightarrow> error + unit" where
  "check_status lib self response =
     (let sc = status_code response in
      if sc div 100 = 2 then
        (if rtext response \<noteq> [] then Inr ()
         else Inl (AssertionError ''Invalid response from server''))
      else if sc = rate_limit_status_code self then
        Inl (RateLimitError_init (rate_limit_status_code self))
      else if sc = 401 then
        (case json_loads lib (rtext response) of
           None \<Rightarrow> Inl JSONDecodeError
         | Some decoded \<Rightarrow>
             (case subscript decoded ''error_msg'' of
                Inl e \<Rightarrow> Inl e
              | Inr msg \<Rightarrow> Inl (APIError_init msg)))
      else
        Inl (ValueError (''Status code unhandled: '' @ str_int sc @ '' for URL '' @ url response)))"

section \<open>Query strings and requests\<close>

text \<open>
  The \<open>_key\<close> property: the loop over \<open>self._auth_dict.items()\<close>, with the string
  built so far as accumulator.
\<close>

fun key_loop :: "string \<Rightarrow> dict \<Rightarrow> string" where
  "key_loop auth_string [] = auth_string"
| "key_loop auth_string ((k, v) # items) =
     key_loop (auth_string @ py_str (PStr k) @ ''='' @ py_str v @ ''&'') items"

definition key :: "heap \<Rightarrow> BaseAPI \<Rightarrow> string" where
  "key h self = key_loop [] (h (auth_dict self))"

text \<open>
  \<open>_get\<close>. The result pairs the URL handed to \<open>requests.get\<close> with what the method
  returns or raises.
\<close>

definition get :: "library \<Rightarrow> heap \<Rightarrow> BaseAPI \<Rightarrow> string \<Rightarrow> string \<times> (error + json)" where
  "get lib h self qstring =
     (let qstring' = qstring @ key h self;
          target = api self @ qstring'
      in (target,
          case requests_get lib target of
            Inl e \<Rightarrow> Inl e
          | Inr response \<Rightarrow>
              (case check_status lib self response of
                 Inl e \<Rightarrow> Inl e
               | Inr u \<Rightarrow>
                   (case json_loads lib (rtext response) of
                      None \<Rightarrow> Inl JSONDecodeError
                    | Some decoded \<Rightarrow> Inr decoded))))"

text \<open>
  \<open>d[k] = v\<close> and \<open>d.update(other)\<close> on a dictionary's entries: an existing key keeps
  its place and takes the new value, a new key goes to the end.
\<close>

fun dict_set :: "dict \<Rightarrow> string \<Rightarrow> pyval \<Rightarrow> dict" where
  "dict_set [] k v = [(k, v)]"
| "dict_set ((k', v') # d) k v =
     (if k' = k then (k', v) # d else (k', v') # dict_set d k v)"

fun dict_update :: "dict \<Rightarrow> dict \<Rightarrow> dict" where
  "dict_update d [] = d"
| "dict_update d ((k, v) # other) = dict_update (dict_set d k v) other"

text \<open>
  \<open>_put_post_delete\<close>. \<open>payload\<close> is a reference: the update is written to the store
  before the request is made, and the store is returned with the outcome.
\<close>

definition put_post_delete ::
  "library \<Rightarrow> heap \<Rightarrow> BaseAPI \<Rightarrow> string \<Rightarrow> addr \<Rightarrow> (string \<Rightarrow> dict \<Rightarrow> error + response)
     \<Rightarrow> heap \<times> (error + json)" where
  "put_post_delete lib h self endpoint payload http_method =
     (let h' = h(payload := dict_update (h payload) (h (auth_dict self)))
      in (h',
          case http_method (api self @ endpoint) (h' payload) of
            Inl e \<Rightarrow> Inl e
          | Inr response \<Rightarrow>
              (case check_status lib self response of
                 Inl e \<Rightarrow> Inl e
               | Inr u \<Rightarrow>
                   (case json_loads lib (rtext response) of
                      None \<Rightarrow> Inl JSONDecodeError
                    | Some decoded \<Rightarrow> Inr decoded))))"

definition put :: "library \<Rightarrow> heap \<Rightarrow> BaseAPI \<Rightarrow> string \<Rightarrow> addr \<Rightarrow> heap \<times> (error + json)" where
  "put lib h self endpoint payload =
     put_post_delete lib h self endpoint payload (requests_put lib)"

definition post :: "library \<Rightarrow> heap \<Rightarrow> BaseAPI \<Rightarrow> string \<Rightarrow> addr \<Rightarrow> heap \<times> (error + json)" where
  "post lib h self endpoint payload =
     put_post_delete lib h self endpoint payload (requests_post lib)"

definition delete :: "library \<Rightarrow> heap \<Rightarrow> BaseAPI \<Rightarrow> string \<Rightarrow> addr \<Rightarrow> heap \<times> (error + json)" where
  "delete lib h self endpoint payload =
     put_post_delete lib h self endpoint payload (requests_delete lib)"

text \<open>\<open>_param\<close> (it does not read \<open>self\<close>).\<close>

definition param :: "pyval \<Rightarrow> pyval \<Rightarrow> string" where
  "param name val =
     (if truthy val then py_str name @ ''='' @ py_str val @ ''&'' else [])"

text \<open>\<open>set_auth\<close> stores the reference it is given.\<close>

definition set_auth :: "BaseAPI \<Rightarrow> addr \<Rightarrow> BaseAPI" where
  "set_auth self auth = self\<lparr>auth_dict := auth\<rparr>"

section \<open>The memoizing wrapper\<close>

text \<open>
  The key \<open>tuple([f, frozenset(kwargs)] + list(args[1:]))\<close>: the wrapped function
  (a number stands for its identity), the set of keyword names, and the positional
  arguments after the receiver. A list is not hashable, and a dictionary compares
  \<open>True\<close> and \<open>False\<close> equal to \<open>1\<close> and \<open>0\<close>.
\<close>

type_synonym memo_key = "nat \<times> string set \<times> pyval list"

fun hashable :: "pyval \<Rightarrow> bool" where
  "hashable (PList xs) = False"
| "hashable v = True"

fun key_norm :: "pyval \<Rightarrow> pyval" where
  "key_norm (PBool b) = PInt (if b then 1 else 0)"
| "key_norm v = v"

definition memo_key_of :: "nat \<Rightarrow> pyval list \<Rightarrow> dict \<Rightarrow> memo_key" where
  "memo_key_of fid args kwargs = (fid, set (map fst kwargs), map key_norm args)"

text \<open>\<open>now - memo[key][1] > instance._cache_life\<close>, on the elapsed seconds.\<close>

fun outlived :: "int \<Rightarrow> cache_life \<Rightarrow> bool" where
  "outlived elapsed (Seconds t) = (real_of_int elapsed > t)"
| "outlived elapsed Forever = False"

text \<open>
  The state the wrapper works on: the closure's \<open>memo\<close> dictionary, the number of times
  the wrapped function has been invoked, and whatever the wrapped function itself
  reads and changes (\<open>world\<close>).
\<close>

record ('v, 'w) memo_state =
  memo :: "memo_key \<rightharpoonup> ('v \<times> int)"
  calls :: nat
  world :: 'w

type_synonym ('v, 'w) wrapped =
  "'w \<Rightarrow> BaseAPI \<Rightarrow> pyval list \<Rightarrow> dict \<Rightarrow> (error + 'v) \<times> 'w"

text \<open>
  The condition of the \<open>if\<close>:
  \<open>key not in memo or now - memo[key][1] > instance._cache_life\<close>.
\<close>

definition stale :: "('v, 'w) memo_state \<Rightarrow> memo_key \<Rightarrow> int \<Rightarrow> BaseAPI \<Rightarrow> bool" where
  "stale st k now instance =
     (case memo st k of
        None \<Rightarrow> True
      | Some (v, ts) \<Rightarrow> outlived (now - ts) (cache_life instance))"

text \<open>
  \<open>memoized\<close>, the function \<open>_memoize(f)\<close> returns. \<open>now\<close> is \<open>int(time.time())\<close>,
  \<open>instance\<close> is \<open>args[0]\<close> and \<open>args\<close> is \<open>args[1:]\<close>: the wrapper decorates
  methods, so the receiver is always there.
\<close>

definition memoized ::
  "('v, 'w) wrapped \<Rightarrow> nat \<Rightarrow> ('v, 'w) memo_state \<Rightarrow> int \<Rightarrow> BaseAPI \<Rightarrow> pyval list \<Rightarrow> dict
     \<Rightarrow> (error + 'v) \<times> ('v, 'w) memo_state" where
  "memoized f fid st now instance args kwargs =
     (if \<not> list_all hashable args then (Inl TypeError, st)
      else
        let k = memo_key_of fid args kwargs
        in if stale st k now instance then
             (case f (world st) instance args kwargs of
                (Inl e, w') \<Rightarrow> (Inl e, st\<lparr>calls := Suc (calls st), world := w'\<rparr>)
              | (Inr v, w') \<Rightarrow>
                  (Inr v, st\<lparr>memo := (memo st)(k \<mapsto> (v, now)),
                              calls := Suc (calls st), world := w'\<rparr>))
           else
             (case memo st k of
                None \<Rightarrow> (Inl (KeyError []), st)
              | Some (v, ts) \<Rightarrow> (Inr v, st)))"

text \<open>
  Python's \<open>int(x)\<close> on a float: truncation toward zero.
\<close>

definition py_int :: "real \<Rightarrow> int" where
  "py_int x = (if 0 \<le> x then \<lfloor>x\<rfloor> else \<lceil>x\<rceil>)"

text \<open>
  The wrapper called at the moment \<open>time.time()\<close> reads \<open>clock\<close>, a number of seconds
  with a fraction: line 54 keeps \<open>now = int(time.time())\<close>, and everything after works
  on that whole number.
\<close>

definition memoized_at ::
  "('v, 'w) wrapped \<Rightarrow> nat \<Rightarrow> ('v, 'w) memo_state \<Rightarrow> real \<Rightarrow> BaseAPI \<Rightarrow> pyval list \<Rightarrow> dict
     \<Rightarrow> (error + 'v) \<times> ('v, 'w) memo_state" where
  "memoized_at f fid st clock instance args kwargs =
     memoized f fid st (py_int clock) instance args kwargs"

section \<open>Example inputs\<close>

text \<open>
  A decoder that returns what \<open>json.loads\<close> returns on the two bodies used below,
  and a library whose requests all answer 200 with the second body.
\<close>

definition example_loads :: "string \<Rightarrow> json option" where
  \<open>example_loads s =
     (if s = ''{"error_msg": "invalid token"}''
        then Some (JObject [(''error_msg'', JString ''invalid token'')])
      else if s = ''{"ok": true}'' then Some (JObject [(''ok'', JBool True)])
      else None)\<close>

definition example_response :: "int \<Rightarrow> string \<Rightarrow> string \<Rightarrow> response" where
  "example_response sc body u = \<lparr>status_code = sc, rtext = body, url = u\<rparr>"

definition example_library :: library where
  \<open>example_library =
     \<lparr>json_loads = example_loads,
      requests_get = (\<lambda>u. Inr (example_response 200 ''{"ok": true}'' u)),
      requests_put = (\<lambda>u d. Inr (example_response 200 ''{"ok": true}'' u)),
      requests_post = (\<lambda>u d. Inr (example_response 200 ''{"ok": true}'' u)),
      requests_delete = (\<lambda>u d. Inr (example_response 200 ''{"ok": true}'' u))\<rparr>\<close>

definition example_client :: BaseAPI where
  "example_client =
     \<lparr>api = ''http://x/'', rate_limit_status_code = 403, auth_dict = 0,
      cache_life = Seconds 60\<rparr>"

text \<open>
  A store with the dictionary \<open>{'token': 'abc'}\<close> at address 0 and the dictionary
  \<open>{'a': 1, 'token': 'old'}\<close> at address 1.
\<close>

definition example_heap :: heap where
  "example_heap a =
     (if a = 0 then [(''token'', PStr ''abc'')]
      else if a = 1 then [(''a'', PInt 1), (''token'', PStr ''old'')]
      else [])"

text \<open>
  A wrapped function whose result changes from one invocation to the next (it returns
  the number of earlier invocations), one that returns the value of its keyword
  argument \<open>q\<close>, and one that always raises.
\<close>

definition counting :: "(pyval, nat) wrapped" where
  "counting w instance args kwargs = (Inr (PInt (int w)), Suc w)"


definition failing :: "(pyval, unit) wrapped" where
  "failing w instance args kwargs = (Inl (RateLimitError_init 403), w)"

definition empty_state :: "'w \<Rightarrow> ('v, 'w) memo_state" where
  "empty_state w = \<lparr>memo = Map.empty, calls = 0, world = w\<rparr>"

section \<open>Status classification: properties\<close>

lemma str_int_403: "str_int 403 = ''403''"
  by (simp add: str_int_def digits.simps digit_char_def)

text \<open>
  C3, as stated: whatever code is configured as the rate-limit code, a response with
  that status raises \<open>RateLimitError\<close>. This fails when the configured code is a 2xx
  code, because the 2xx branch is tested first: with 200 configured, a 200 response
  with a body returns normally.
\<close>

theorem check_status_rate_limit_counterexample:
  "status_code (example_response 200 ''slow down'' ''http://x/y'')
     = rate_limit_status_code (example_client\<lparr>rate_limit_status_code := 200\<rparr>)
   \<and> check_status example_library (example_client\<lparr>rate_limit_status_code := 200\<rparr>)
        (example_response 200 ''slow down'' ''http://x/y'') = Inr ()"
  by (simp add: check_status_def example_response_def example_client_def)

text \<open>
  C3, amended: for every configured rate-limit code outside 200..299 and every
  response whose status equals it, \<open>_check_status\<close> raises \<open>RateLimitError\<close> whose
  value is the code followed by \<open>' Error/Rate Limit Encountered'\<close>, whatever the body
  (the statement does not constrain the body, nor the decoder).
\<close>

theorem check_status_rate_limit:
  assumes "rate_limit_status_code self div 100 \<noteq> 2"
    and "status_code response = rate_limit_status_code self"
  shows "check_status lib self response
           = Inl (RateLimitError (str_int (rate_limit_status_code self)
                                    @ '' Error/Rate Limit Encountered''))"
  using assms by (simp add: check_status_def RateLimitError_init_def)

theorem check_status_rate_limit_witness:
  "rate_limit_status_code example_client div 100 \<noteq> 2
   \<and> status_code (example_response 403 [] ''http://x/y'') = rate_limit_status_code example_client
   \<and> check_status example_library example_client (example_response 403 [] ''http://x/y'')
       = Inl (RateLimitError ''403 Error/Rate Limit Encountered'')"
  using check_status_rate_limit [of example_client "example_response 403 [] ''http://x/y''" example_library]
  by (simp add: example_client_def example_response_def str_int_403)

text \<open>
  C4: for every response whose status \<open>s\<close> has \<open>s // 100 == 2\<close>, in particular 200,
  201, 204 and 299, \<open>_check_status\<close> returns normally when the body is not empty and
  fails the assertion \<open>'Invalid response from server'\<close> when it is empty.
\<close>

theorem check_status_success:
  assumes "status_code response div 100 = 2 \<or> status_code response \<in> {200, 201, 204, 299}"
  shows "check_status lib self response
           = (if rtext response \<noteq> [] then Inr ()
              else Inl (AssertionError ''Invalid response from server''))"
proof -
  from assms have "status_code response div 100 = 2" by auto
  then show ?thesis by (simp add: check_status_def)
qed

theorem check_status_success_witness:
  "status_code (example_response 204 ''[]'' ''http://x/y'') \<in> {200, 201, 204, 299}
   \<and> status_code (example_response 299 [] ''http://x/y'') div 100 = 2
   \<and> check_status example_library example_client (example_response 204 ''[]'' ''http://x/y'') = Inr ()
   \<and> check_status example_library example_client (example_response 299 [] ''http://x/y'')
       = Inl (AssertionError ''Invalid response from server'')"
  using check_status_success [of "example_response 204 ''[]'' ''http://x/y''" example_library example_client]
    check_status_success [of "example_response 299 [] ''http://x/y''" example_library example_client]
  by (simp add: example_response_def)

text \<open>
  C5: for every response with status 401, when the configured rate-limit code is not
  401, whose body decodes to a dictionary with the field \<open>error_msg\<close>,
  \<open>_check_status\<close> raises \<open>APIError\<close> carrying that field; the body
  \<open>{"error_msg": "invalid token"}\<close> gives \<open>APIError('invalid token')\<close>.
\<close>

theorem check_status_auth:
  assumes "status_code response = 401"
    and "rate_limit_status_code self \<noteq> 401"
    and "json_loads lib (rtext response) = Some (JObject entries)"
    and "map_of entries ''error_msg'' = Some msg"
  shows "check_status lib self response = Inl (APIError msg)"
  using assms by (simp add: check_status_def APIError_init_def)

theorem check_status_auth_witness:
  \<open>check_status example_library example_client
     (example_response 401 ''{"error_msg": "invalid token"}'' ''http://x/y'')
   = Inl (APIError (JString ''invalid token''))\<close>
  using check_status_auth [of \<open>example_response 401 ''{"error_msg": "invalid token"}'' ''http://x/y''\<close>
      example_client example_library "[(''error_msg'', JString ''invalid token'')]" "JString ''invalid token''"]
  by (simp add: example_response_def example_client_def example_library_def example_loads_def)

text \<open>
  C6: for every response whose status is not 2xx, not the configured rate-limit code
  and not 401, \<open>_check_status\<close> raises \<open>ValueError\<close> whose message carries the status
  code and the URL of the response; status 500 with URL \<open>http://x/y\<close> gives
  \<open>'Status code unhandled: 500 for URL http://x/y'\<close>.
\<close>

theorem check_status_unhandled:
  assumes "status_code response div 100 \<noteq> 2"
    and "status_code response \<noteq> rate_limit_status_code self"
    and "status_code response \<noteq> 401"
  shows "check_status lib self response
           = Inl (ValueError (''Status code unhandled: '' @ str_int (status_code response)
                                @ '' for URL '' @ url response))"
  using assms by (simp add: check_status_def)

theorem check_status_unhandled_witness:
  "check_status example_library example_client (example_response 500 [] ''http://x/y'')
     = Inl (ValueError ''Status code unhandled: 500 for URL http://x/y'')"
  using check_status_unhandled [of "example_response 500 [] ''http://x/y''" example_client example_library]
  by (simp add: example_response_def example_client_def str_int_def digits.simps digit_char_def)

section \<open>Requests and parameters: properties\<close>

lemma key_loop_concat:
  "key_loop acc d = acc @ concat (map (\<lambda>(k, v). py_str (PStr k) @ ''='' @ py_str v @ ''&'') d)"
  by (induction acc d rule: key_loop.induct) simp_all

lemma map_of_dict_set: "map_of (dict_set d k v) = (map_of d)(k \<mapsto> v)"
  by (induction d k v rule: dict_set.induct) auto

lemma map_of_dict_update:
  "distinct (map fst other) \<Longrightarrow>
   map_of (dict_update d other) k
     = (case map_of other k of Some v \<Rightarrow> Some v | None \<Rightarrow> map_of d k)"
proof (induction d other rule: dict_update.induct)
  case (1 d)
  then show ?case by simp
next
  case (2 d k' v' other)
  then show ?case
    by (auto simp: map_of_dict_set map_of_eq_None_iff image_iff split: option.splits)
qed

text \<open>
  C8: \<open>_get(qstring)\<close> requests the URL made of the base URL, \<open>qstring\<close> and, for each
  entry of the auth dictionary in iteration order, \<open>str(key) + '=' + str(value) + '&'\<close>,
  with no encoding; after \<open>set_auth({'token': 'abc'})\<close> the requested URL ends in
  \<open>token=abc&\<close>; and when the response is a 2xx with a body that decodes, \<open>_get\<close>
  returns the decoded body.
\<close>

theorem get_request:
  "fst (get lib h self qstring)
     = api self @ qstring
         @ concat (map (\<lambda>(k, v). py_str (PStr k) @ ''='' @ py_str v @ ''&'') (h (auth_dict self)))
   \<and> (h auth = [(''token'', PStr ''abc'')] \<longrightarrow>
        fst (get lib h (set_auth self auth) qstring) = api self @ qstring @ ''token=abc&'')
   \<and> (requests_get lib (fst (get lib h self qstring)) = Inr response
        \<and> status_code response div 100 = 2 \<and> rtext response \<noteq> []
        \<and> json_loads lib (rtext response) = Some decoded \<longrightarrow>
        snd (get lib h self qstring) = Inr decoded)"
  by (simp add: get_def key_def key_loop_concat set_auth_def check_status_def Let_def)

theorem get_request_witness:
  \<open>example_heap 0 = [(''token'', PStr ''abc'')]
   \<and> get example_library example_heap (set_auth example_client 0) ''search?q=x&''
       = (''http://x/search?q=x&token=abc&'', Inr (JObject [(''ok'', JBool True)]))\<close>
  using get_request [of example_library example_heap "set_auth example_client 0" "''search?q=x&''" 0
      \<open>example_response 200 ''{"ok": true}'' ''http://x/search?q=x&token=abc&''\<close>
      "JObject [(''ok'', JBool True)]"]
  by (simp add: example_heap_def example_library_def example_loads_def example_response_def
      example_client_def set_auth_def prod_eq_iff)

text \<open>
  C9: \<open>_param(name, value)\<close> is the empty string when \<open>value\<close> is falsy (\<open>None\<close>,
  \<open>False\<close>, \<open>0\<close>, the empty string, the empty list) and
  \<open>str(name) + '=' + str(value) + '&'\<close> otherwise; so \<open>_param('limit', 10)\<close> is
  \<open>'limit=10&'\<close>, and \<open>_param('q', 0)\<close> and \<open>_param('q', '')\<close> are empty.
\<close>

theorem param_format:
  "param name val =
     (if val \<in> {PNone, PBool False, PInt 0, PStr [], PList []} then []
      else py_str name @ ''='' @ py_str val @ ''&'')"
  by (cases val) (auto simp: param_def)

theorem param_format_witness:
  "param (PStr ''limit'') (PInt 10) = ''limit=10&''
   \<and> param (PStr ''q'') (PInt 0) = []
   \<and> param (PStr ''q'') (PStr []) = []"
  using param_format [of "PStr ''limit''" "PInt 10"] param_format [of "PStr ''q''" "PInt 0"]
    param_format [of "PStr ''q''" "PStr []"]
  by (simp add: str_int_def digits.simps digit_char_def)

text \<open>
  C10: \<open>_put_post_delete\<close>, and with it \<open>_put\<close>, \<open>_post\<close> and \<open>_delete\<close>, writes the
  auth entries into the caller's payload dictionary itself: afterwards the object at
  the payload's address holds the payload updated with the auth dictionary, so every
  auth key maps to its auth value (also where the payload had the key) and every other
  key keeps its payload value; no other object changes.
\<close>

theorem put_post_delete_payload:
  assumes "distinct (map fst (h (auth_dict self)))"
  shows "fst (put_post_delete lib h self endpoint payload http_method) payload
           = dict_update (h payload) (h (auth_dict self))
   \<and> (\<forall>k. map_of (fst (put_post_delete lib h self endpoint payload http_method) payload) k
          = (case map_of (h (auth_dict self)) k of
               Some v \<Rightarrow> Some v
             | None \<Rightarrow> map_of (h payload) k))
   \<and> (\<forall>a. a \<noteq> payload \<longrightarrow>
          fst (put_post_delete lib h self endpoint payload http_method) a = h a)
   \<and> fst (put lib h self endpoint payload)
       = fst (put_post_delete lib h self endpoint payload http_method)
   \<and> fst (post lib h self endpoint payload)
       = fst (put_post_delete lib h self endpoint payload http_method)
   \<and> fst (delete lib h self endpoint payload)
       = fst (put_post_delete lib h self endpoint payload http_method)"
  using assms
  by (simp add: put_post_delete_def put_def post_def delete_def map_of_dict_update Let_def)

theorem put_post_delete_payload_witness:
  "distinct (map fst (example_heap (auth_dict example_client)))
   \<and> example_heap 1 = [(''a'', PInt 1), (''token'', PStr ''old'')]
   \<and> fst (post example_library example_heap example_client ''items'' 1) 1
       = [(''a'', PInt 1), (''token'', PStr ''abc'')]
   \<and> fst (post example_library example_heap example_client ''items'' 1) 1 \<noteq> example_heap 1
   \<and> fst (post example_library example_heap example_client ''items'' 1) 0 = example_heap 0"
  using put_post_delete_payload [of example_heap example_client example_library "''items''" 1
      "requests_post example_library"]
  by (simp add: example_heap_def example_client_def)

section \<open>The memoizing wrapper: properties\<close>

lemma memoized_unhashable:
  "\<not> list_all hashable args \<Longrightarrow> memoized f fid st now instance args kwargs = (Inl TypeError, st)"
  by (simp add: memoized_def)

lemma memoized_fresh:
  assumes "list_all hashable args"
    and "memo st (memo_key_of fid args kwargs) = Some (v, ts)"
    and "\<not> outlived (now - ts) (cache_life instance)"
  shows "memoized f fid st now instance args kwargs = (Inr v, st)"
  using assms by (simp add: memoized_def stale_def)

lemma memoized_stale_returns:
  assumes "list_all hashable args"
    and "stale st (memo_key_of fid args kwargs) now instance"
    and "f (world st) instance args kwargs = (Inr v, w')"
  shows "memoized f fid st now instance args kwargs
           = (Inr v, st\<lparr>memo := (memo st)(memo_key_of fid args kwargs \<mapsto> (v, now)),
                        calls := Suc (calls st), world := w'\<rparr>)"
  using assms by (simp add: memoized_def)

lemma memoized_stale_raises:
  assumes "list_all hashable args"
    and "stale st (memo_key_of fid args kwargs) now instance"
    and "f (world st) instance args kwargs = (Inl e, w')"
  shows "memoized f fid st now instance args kwargs
           = (Inl e, st\<lparr>calls := Suc (calls st), world := w'\<rparr>)"
  using assms by (simp add: memoized_def)

lemma memoized_calls:
  "calls (snd (memoized f fid st now instance args kwargs))
     = (if list_all hashable args \<and> stale st (memo_key_of fid args kwargs) now instance
        then Suc (calls st) else calls st)"
  by (auto simp: memoized_def Let_def split: prod.splits sum.splits option.splits)

lemma memoized_stores:
  assumes "memoized f fid st0 now instance args kwargs = (Inr v, st)"
    and "calls st = Suc (calls st0)"
  shows "memo st (memo_key_of fid args kwargs) = Some (v, now) \<and> list_all hashable args"
  using assms
  by (auto simp: memoized_def Let_def split: prod.splits sum.splits option.splits if_splits)

lemma memo_key_of_eq:
  "memo_key_of fid args kwargs = memo_key_of fid' args' kwargs'
     \<longleftrightarrow> fid = fid' \<and> map key_norm args = map key_norm args'
         \<and> set (map fst kwargs) = set (map fst kwargs')"
  by (auto simp: memo_key_of_def)

lemma memoized_readings:
  assumes "memoized f fid st0 T instance0 args kwargs0 = (Inr v, st)"
    and "calls st = Suc (calls st0)"
    and "set (map fst kwargs) = set (map fst kwargs0)"
  shows "(cache_life instance = Seconds t \<longrightarrow>
            (calls (snd (memoized f fid st (T + d) instance args kwargs)) = calls st
               \<longleftrightarrow> real_of_int d \<le> t))
   \<and> (cache_life instance = Forever \<longrightarrow>
         calls (snd (memoized f fid st (T + d) instance args kwargs)) = calls st)
   \<and> (calls (snd (memoized f fid st (T + d) instance args kwargs)) = calls st \<longrightarrow>
         memoized f fid st (T + d) instance args kwargs = (Inr v, st))
   \<and> (calls (snd (memoized f fid st (T + d) instance args kwargs)) \<noteq> calls st \<longrightarrow>
         calls (snd (memoized f fid st (T + d) instance args kwargs)) = Suc (calls st)
         \<and> (\<forall>v' w'. f (world st) instance args kwargs = (Inr v', w') \<longrightarrow>
               memoized f fid st (T + d) instance args kwargs
                 = (Inr v', st\<lparr>memo := (memo st)(memo_key_of fid args kwargs \<mapsto> (v', T + d)),
                               calls := Suc (calls st), world := w'\<rparr>)))"
proof -
  have k: "memo_key_of fid args kwargs = memo_key_of fid args kwargs0"
    using assms(3) by (simp add: memo_key_of_eq)
  from memoized_stores [OF assms(1) assms(2)]
  have entry: "memo st (memo_key_of fid args kwargs) = Some (v, T)" and h: "list_all hashable args"
    by (simp_all add: k)
  have st: "stale st (memo_key_of fid args kwargs) (T + d) instance
              \<longleftrightarrow> outlived d (cache_life instance)"
    by (simp add: stale_def entry)
  have c: "calls (snd (memoized f fid st (T + d) instance args kwargs)) = calls st
             \<longleftrightarrow> \<not> outlived d (cache_life instance)"
    by (simp add: memoized_calls h st)
  have fresh: "\<not> outlived d (cache_life instance) \<Longrightarrow>
      memoized f fid st (T + d) instance args kwargs = (Inr v, st)"
    using memoized_fresh [OF h entry, of "T + d" "instance" f] by simp
  have again: "outlived d (cache_life instance) \<Longrightarrow>
      f (world st) instance args kwargs = (Inr v', w') \<Longrightarrow>
      memoized f fid st (T + d) instance args kwargs
        = (Inr v', st\<lparr>memo := (memo st)(memo_key_of fid args kwargs \<mapsto> (v', T + d)),
                      calls := Suc (calls st), world := w'\<rparr>)" for v' w'
    using memoized_stale_returns [OF h, of st fid kwargs "T + d" "instance" f v' w'] st by simp
  have suc: "outlived d (cache_life instance) \<Longrightarrow>
      calls (snd (memoized f fid st (T + d) instance args kwargs)) = Suc (calls st)"
    by (simp add: memoized_calls h st)
  show ?thesis
    using c fresh again suc by (cases "cache_life instance") auto
qed

text \<open>
  C1, as stated: a call at time \<open>T\<close> stored an entry, and the repeat at time
  \<open>T + \<Delta>\<close> leaves the wrapped function uninvoked iff \<open>\<Delta> \<le> t\<close>. The wrapper compares
  whole-second readings of the clock, not the times themselves, so this fails in both
  directions. With \<open>_cache_life\<close> 60, a call at 100.0 and a repeat at 160.9 are 60.9
  seconds apart, more than 60, and the repeat still returns the stored value without
  invoking the function. With \<open>_cache_life\<close> 0.5, a call at 100.9 and a repeat at
  101.1 are 0.2 seconds apart, less than 0.5, and the repeat invokes the function
  again.
\<close>

theorem memoized_ttl_counterexample:
  "memoized_at counting 0 (empty_state 0) 100.0 example_client [PStr ''x''] []
     = (Inr (PInt 0),
        \<lparr>memo = [memo_key_of 0 [PStr ''x''] [] \<mapsto> (PInt 0, 100)], calls = 1, world = 1\<rparr>)
   \<and> cache_life example_client = Seconds 60
   \<and> \<not> (160.9 - 100.0 \<le> (60 :: real))
   \<and> memoized_at counting 0
        \<lparr>memo = [memo_key_of 0 [PStr ''x''] [] \<mapsto> (PInt 0, 100)], calls = 1, world = 1\<rparr>
        160.9 example_client [PStr ''x''] []
     = (Inr (PInt 0),
        \<lparr>memo = [memo_key_of 0 [PStr ''x''] [] \<mapsto> (PInt 0, 100)], calls = 1, world = 1\<rparr>)
   \<and> memoized_at counting 0 (empty_state 0) 100.9
        (example_client\<lparr>cache_life := Seconds 0.5\<rparr>) [PStr ''x''] []
     = (Inr (PInt 0),
        \<lparr>memo = [memo_key_of 0 [PStr ''x''] [] \<mapsto> (PInt 0, 100)], calls = 1, world = 1\<rparr>)
   \<and> 101.1 - 100.9 \<le> (0.5 :: real)
   \<and> memoized_at counting 0
        \<lparr>memo = [memo_key_of 0 [PStr ''x''] [] \<mapsto> (PInt 0, 100)], calls = 1, world = 1\<rparr>
        101.1 (example_client\<lparr>cache_life := Seconds 0.5\<rparr>) [PStr ''x''] []
     = (Inr (PInt 1),
        \<lparr>memo = [memo_key_of 0 [PStr ''x''] [] \<mapsto> (PInt 1, 101)], calls = 2, world = 2\<rparr>)"
  by (simp add: memoized_at_def py_int_def memoized_def stale_def empty_state_def counting_def
      example_client_def)

text \<open>
  C1, amended: the elapsed time is measured between the whole-second clock readings
  \<open>int(time.time())\<close> of the two calls. Let a call whose reading was \<open>T\<close> have invoked
  the wrapped function and stored \<open>(v, T)\<close>. A repeated call whose reading is \<open>T'\<close>,
  with the same positional arguments and the same keyword names, on a receiver whose
  \<open>_cache_life\<close> is \<open>t\<close> at that moment, leaves the wrapped function uninvoked exactly
  when \<open>T' - T \<le> t\<close> (always, when \<open>_cache_life\<close> is infinite), and then returns \<open>v\<close>
  with the state untouched; otherwise it invokes the wrapped function once more and,
  when that returns \<open>v'\<close>, returns \<open>v'\<close> and replaces the entry by \<open>(v', T')\<close>.
\<close>

theorem memoized_ttl:
  assumes "memoized_at f fid st0 c0 instance0 args kwargs0 = (Inr v, st)"
    and "calls st = Suc (calls st0)"
    and "set (map fst kwargs) = set (map fst kwargs0)"
  shows "(cache_life instance = Seconds t \<longrightarrow>
            (calls (snd (memoized_at f fid st c1 instance args kwargs)) = calls st
               \<longleftrightarrow> real_of_int (py_int c1 - py_int c0) \<le> t))
   \<and> (cache_life instance = Forever \<longrightarrow>
         calls (snd (memoized_at f fid st c1 instance args kwargs)) = calls st)
   \<and> (calls (snd (memoized_at f fid st c1 instance args kwargs)) = calls st \<longrightarrow>
         memoized_at f fid st c1 instance args kwargs = (Inr v, st))
   \<and> (calls (snd (memoized_at f fid st c1 instance args kwargs)) \<noteq> calls st \<longrightarrow>
         calls (snd (memoized_at f fid st c1 instance args kwargs)) = Suc (calls st)
         \<and> (\<forall>v' w'. f (world st) instance args kwargs = (Inr v', w') \<longrightarrow>
               memoized_at f fid st c1 instance args kwargs
                 = (Inr v', st\<lparr>memo := (memo st)(memo_key_of fid args kwargs \<mapsto> (v', py_int c1)),
                               calls := Suc (calls st), world := w'\<rparr>)))"
proof -
  have first: "memoized f fid st0 (py_int c0) instance0 args kwargs0 = (Inr v, st)"
    using assms(1) by (simp add: memoized_at_def)
  have split: "py_int c0 + (py_int c1 - py_int c0) = py_int c1"
    by simp
  from memoized_readings [OF first assms(2) assms(3), of "instance" t "py_int c1 - py_int c0"]
  show ?thesis
    unfolding memoized_at_def split .
qed

theorem memoized_ttl_witness:
  "memoized_at counting 0 (empty_state 0) 100.9 example_client [PStr ''x''] []
     = (Inr (PInt 0),
        \<lparr>memo = [memo_key_of 0 [PStr ''x''] [] \<mapsto> (PInt 0, 100)], calls = 1, world = 1\<rparr>)
   \<and> memoized_at counting 0
        \<lparr>memo = [memo_key_of 0 [PStr ''x''] [] \<mapsto> (PInt 0, 100)], calls = 1, world = 1\<rparr>
        160.9 example_client [PStr ''x''] []
     = (Inr (PInt 0),
        \<lparr>memo = [memo_key_of 0 [PStr ''x''] [] \<mapsto> (PInt 0, 100)], calls = 1, world = 1\<rparr>)
   \<and> memoized_at counting 0
        \<lparr>memo = [memo_key_of 0 [PStr ''x''] [] \<mapsto> (PInt 0, 100)], calls = 1, world = 1\<rparr>
        161.2 example_client [PStr ''x''] []
     = (Inr (PInt 1),
        \<lparr>memo = [memo_key_of 0 [PStr ''x''] [] \<mapsto> (PInt 1, 161)], calls = 2, world = 2\<rparr>)"
proof -
  let ?st = "\<lparr>memo = [memo_key_of 0 [PStr ''x''] [] \<mapsto> (PInt 0, 100)], calls = 1, world = 1\<rparr>
               :: (pyval, nat) memo_state"
  have first: "memoized_at counting 0 (empty_state 0) 100.9 example_client [PStr ''x''] []
                 = (Inr (PInt 0), ?st)"
    by (simp add: memoized_at_def py_int_def memoized_def stale_def empty_state_def counting_def)
  have invoked: "calls ?st = Suc (calls (empty_state 0 :: (pyval, nat) memo_state))"
    by (simp add: empty_state_def)
  have names: "set (map fst ([] :: dict)) = set (map fst ([] :: dict))"
    by simp
  have life: "cache_life example_client = Seconds 60"
    by (simp add: example_client_def)
  have next_value: "counting (world ?st) example_client [PStr ''x''] [] = (Inr (PInt 1), 2)"
    by (simp add: counting_def)
  have within: "real_of_int (py_int 160.9 - py_int 100.9) \<le> 60"
    and beyond: "\<not> real_of_int (py_int 161.2 - py_int 100.9) \<le> 60"
    by (simp_all add: py_int_def)
  from memoized_ttl [OF first invoked names, of example_client 60 "160.9"] life within
  have hit: "memoized_at counting 0 ?st 160.9 example_client [PStr ''x''] []
               = (Inr (PInt 0), ?st)"
    by blast
  from memoized_ttl [OF first invoked names, of example_client 60 "161.2"] life beyond next_value
  have miss: "memoized_at counting 0 ?st 161.2 example_client [PStr ''x''] []
                = (Inr (PInt 1),
                   ?st\<lparr>memo := (memo ?st)(memo_key_of 0 [PStr ''x''] [] \<mapsto> (PInt 1, py_int 161.2)),
                        calls := Suc (calls ?st), world := 2\<rparr>)"
    by blast
  show ?thesis
    using first hit miss by (simp add: py_int_def)
qed



text \<open>
  C7: when the wrapped function is invoked and raises, the wrapper raises the same
  exception and the memo dictionary is what it was; more generally the memo
  dictionary is unchanged whenever the wrapper raises, and it changes only when the
  wrapped function has returned a value.
\<close>

theorem memoized_raises:
  "(list_all hashable args \<and> stale st (memo_key_of fid args kwargs) now instance
      \<and> f (world st) instance args kwargs = (Inl e, w') \<longrightarrow>
      memoized f fid st now instance args kwargs
        = (Inl e, st\<lparr>calls := Suc (calls st), world := w'\<rparr>))
   \<and> (fst (memoized f fid st now instance args kwargs) = Inl e' \<longrightarrow>
        memo (snd (memoized f fid st now instance args kwargs)) = memo st)
   \<and> (memo (snd (memoized f fid st now instance args kwargs)) \<noteq> memo st \<longrightarrow>
        (\<exists>v w''. f (world st) instance args kwargs = (Inr v, w'')
           \<and> fst (memoized f fid st now instance args kwargs) = Inr v))"
  by (auto simp: memoized_def Let_def split: prod.splits sum.splits option.splits)

theorem memoized_raises_witness:
  "memoized failing 0
     \<lparr>memo = [memo_key_of 0 [PStr ''x''] [] \<mapsto> (PInt 7, 0)], calls = 1, world = ()\<rparr>
     100 example_client [PStr ''x''] []
   = (Inl (RateLimitError ''403 Error/Rate Limit Encountered''),
      \<lparr>memo = [memo_key_of 0 [PStr ''x''] [] \<mapsto> (PInt 7, 0)], calls = 2, world = ()\<rparr>)"
proof -
  let ?st = "\<lparr>memo = [memo_key_of 0 [PStr ''x''] [] \<mapsto> (PInt 7, 0)], calls = 1, world = ()\<rparr>
               :: (pyval, unit) memo_state"
  have h: "list_all hashable [PStr ''x'']"
    by simp
  have old: "stale ?st (memo_key_of 0 [PStr ''x''] []) 100 example_client"
    by (simp add: stale_def example_client_def)
  have raises: "failing (world ?st) example_client [PStr ''x''] []
                  = (Inl (RateLimitError ''403 Error/Rate Limit Encountered''), ())"
    by (simp add: failing_def RateLimitError_init_def str_int_def digits.simps digit_char_def)
  from memoized_raises [of "[PStr ''x'']" ?st 0 "[]" 100 example_client failing
      "RateLimitError ''403 Error/Rate Limit Encountered''" "()"] h old raises
  show ?thesis by simp
qed

end
